theory Spec2Isabelle
  imports Main
begin

section \<open>Strings of the SDK\<close>

text \<open>
  The stack of \<^verbatim>\<open>CdkPipelineStack.py\<close> never sees the value of a parameter: the
  expression \<^verbatim>\<open>s3_bucket_name.value_as_string\<close> is a token that stands for the value the
  parameter gets at deployment, and \<^verbatim>\<open>artifact_bucket.bucket_arn\<close> is a token for an
  attribute of a resource that does not exist yet. A string of the SDK is therefore a
  sequence of fragments, literal text or tokens; a Python f-string is the concatenation
  of its fragments.
\<close>

type_synonym construct_id = string

datatype fragment =
    Lit string
  | Ref construct_id
  | GetAtt construct_id string

type_synonym cdk_string = "fragment list"

section \<open>Configuration records\<close>

datatype bucket_encryption = UNENCRYPTED | KMS_MANAGED | S3_MANAGED | KMS

datatype removal_policy = DESTROY | RETAIN | SNAPSHOT

datatype effect = ALLOW | DENY

datatype principal = AnyPrincipal | ServicePrincipal string

datatype managed_policy = AwsManagedPolicy string

datatype build_image = STANDARD_4_0 | STANDARD_5_0 | STANDARD_6_0

datatype compute_type = SMALL | MEDIUM | LARGE

datatype artifact = Artifact (artifact_name: string)

record cfn_parameter =
  param_type :: string
  param_description :: string
  param_default :: "string option"

text \<open>
  \<^verbatim>\<open>conditions\<close> is a dictionary of dictionaries in the source: operator, then condition
  key, then the value compared with. Association lists keep the order of the source.
\<close>

record policy_statement =
  stmt_actions :: "string list"
  stmt_resources :: "cdk_string list"
  stmt_conditions :: "(string \<times> (string \<times> string) list) list"
  stmt_effect :: effect
  stmt_principals :: "principal list"

record bucket =
  bucket_name :: cdk_string
  encryption :: bucket_encryption
  bucket_removal_policy :: removal_policy
  resource_policy :: "policy_statement list"

record repository =
  repository_name :: cdk_string

record role =
  assumed_by :: principal
  managed_policies :: "managed_policy list"
  inline_policies :: "(string \<times> policy_statement list) list"

record build_environment =
  env_build_image :: build_image
  env_compute_type :: compute_type

datatype build_source = CodeCommitSource (source_repository: construct_id)

record s3_artifacts =
  artifacts_bucket :: construct_id
  include_build_id :: bool
  package_zip :: bool
  path :: string
  artifact_identifier :: string
  artifacts_encryption :: bool

record project =
  project_name :: string
  project_role :: construct_id
  environment :: build_environment
  source :: build_source
  artifacts :: s3_artifacts

datatype action =
    CodeCommitSourceAction
      (action_name: string) (action_repository: construct_id) (action_branch: string)
      (action_output: artifact)
  | CodeBuildAction
      (action_name: string) (action_project: construct_id) (action_input: artifact)
      (action_outputs: "artifact list")

record stage_props =
  stage_name :: string
  stage_actions :: "action list"

record pipeline =
  pipeline_name :: string
  pipeline_role :: construct_id
  artifact_bucket :: construct_id
  stages :: "stage_props list"

datatype construct =
    Parameter cfn_parameter
  | Bucket bucket
  | Repository repository
  | Role role
  | Project project
  | Pipeline pipeline

text \<open>
  The stack is the object \<^verbatim>\<open>self\<close> that every constructor call of the source mutates:
  each call adds one child under its construct id. The children are kept in the order
  of their creation; a Python variable that holds a construct is the construct's id.
\<close>

record stack =
  stack_scope :: string
  stack_id :: string
  stack_props :: "(string \<times> string) list"
  children :: "(construct_id \<times> construct) list"

datatype error =
    DuplicateConstruct construct_id
  | NotABucket construct_id

section \<open>The constructors the source calls\<close>

definition and_then :: "error + 'a \<Rightarrow> ('a \<Rightarrow> error + 'b) \<Rightarrow> error + 'b" where
  "and_then m f = (case m of Inl e \<Rightarrow> Inl e | Inr x \<Rightarrow> f x)"

text \<open>
  \<^verbatim>\<open>super().__init__(scope, construct_id, **kwargs)\<close>: an empty stack. The checks the base
  constructor makes on its own arguments (the form of the construct id, the keyword
  arguments it knows, a second stack of the same id in the scope) are not modelled: here
  it takes whatever it is given.
\<close>

definition Stack :: "string \<Rightarrow> string \<Rightarrow> (string \<times> string) list \<Rightarrow> error + stack" where
  "Stack scope construct_id kwargs =
     Inr \<lparr>stack_scope = scope, stack_id = construct_id, stack_props = kwargs, children = []\<rparr>"

text \<open>A scope refuses a second child with an id it already holds.\<close>

definition add_child :: "stack \<Rightarrow> construct_id \<Rightarrow> construct \<Rightarrow> error + (construct_id \<times> stack)" where
  "add_child self cid c =
     (if cid \<in> set (map fst (children self)) then Inl (DuplicateConstruct cid)
      else Inr (cid, self\<lparr>children := children self @ [(cid, c)]\<rparr>))"

definition CfnParameter ::
  "stack \<Rightarrow> construct_id \<Rightarrow> string \<Rightarrow> string \<Rightarrow> error + (construct_id \<times> stack)" where
  "CfnParameter self cid ty description =
     add_child self cid
       (Parameter \<lparr>param_type = ty, param_description = description, param_default = None\<rparr>)"

definition value_as_string :: "construct_id \<Rightarrow> cdk_string" where
  "value_as_string p = [Ref p]"

definition Bucket_new ::
  "stack \<Rightarrow> construct_id \<Rightarrow> cdk_string \<Rightarrow> bucket_encryption \<Rightarrow> removal_policy
     \<Rightarrow> error + (construct_id \<times> stack)" where
  "Bucket_new self cid name enc rp =
     add_child self cid
       (Bucket \<lparr>bucket_name = name, encryption = enc, bucket_removal_policy = rp,
                resource_policy = []\<rparr>)"

definition bucket_arn :: "construct_id \<Rightarrow> cdk_string" where
  "bucket_arn b = [GetAtt b ''Arn'']"

text \<open>
  \<^verbatim>\<open>iam.PolicyStatement\<close>: the keyword arguments the source leaves out take the library's
  defaults, no condition, effect ALLOW and no principal.
\<close>

definition PolicyStatement ::
  "string list \<Rightarrow> cdk_string list \<Rightarrow> (string \<times> (string \<times> string) list) list option
     \<Rightarrow> effect option \<Rightarrow> principal list option \<Rightarrow> policy_statement" where
  "PolicyStatement acts ress conds eff prins =
     \<lparr>stmt_actions = acts, stmt_resources = ress,
      stmt_conditions = (case conds of None \<Rightarrow> [] | Some c \<Rightarrow> c),
      stmt_effect = (case eff of None \<Rightarrow> ALLOW | Some e \<Rightarrow> e),
      stmt_principals = (case prins of None \<Rightarrow> [] | Some p \<Rightarrow> p)\<rparr>"

fun append_statement ::
  "construct_id \<Rightarrow> policy_statement \<Rightarrow> (construct_id \<times> construct) list
     \<Rightarrow> (construct_id \<times> construct) list option" where
  "append_statement b s [] = None"
| "append_statement b s ((cid, c) # rest) =
     (if cid = b then
        (case c of
           Bucket bk \<Rightarrow> Some ((cid, Bucket (bk\<lparr>resource_policy := resource_policy bk @ [s]\<rparr>)) # rest)
         | _ \<Rightarrow> None)
      else map_option ((#) (cid, c)) (append_statement b s rest))"

definition add_to_resource_policy ::
  "stack \<Rightarrow> construct_id \<Rightarrow> policy_statement \<Rightarrow> error + stack" where
  "add_to_resource_policy self b s =
     (case append_statement b s (children self) of
        None \<Rightarrow> Inl (NotABucket b)
      | Some cs \<Rightarrow> Inr (self\<lparr>children := cs\<rparr>))"

definition Repository_new ::
  "stack \<Rightarrow> construct_id \<Rightarrow> cdk_string \<Rightarrow> error + (construct_id \<times> stack)" where
  "Repository_new self cid name = add_child self cid (Repository \<lparr>repository_name = name\<rparr>)"

definition Role_new ::
  "stack \<Rightarrow> construct_id \<Rightarrow> principal \<Rightarrow> managed_policy list
     \<Rightarrow> (string \<times> policy_statement list) list \<Rightarrow> error + (construct_id \<times> stack)" where
  "Role_new self cid assumed managed inline =
     add_child self cid
       (Role \<lparr>assumed_by = assumed, managed_policies = managed, inline_policies = inline\<rparr>)"

text \<open>
  \<^verbatim>\<open>codebuild.Project\<close> and \<^verbatim>\<open>codepipeline.Pipeline\<close>: the child holds what the source
  passes. The statements the two constructors attach to the role they are handed do not
  go into the role's record; they are given further down (\<open>project_default_policy\<close>,
  \<open>pipeline_default_policy\<close>). The roles and the rule that the pipeline creates for its
  actions and its trigger are not children of the stack here.
\<close>

definition Project_new ::
  "stack \<Rightarrow> construct_id \<Rightarrow> string \<Rightarrow> construct_id \<Rightarrow> build_environment \<Rightarrow> build_source
     \<Rightarrow> s3_artifacts \<Rightarrow> error + (construct_id \<times> stack)" where
  "Project_new self cid name r env src arts =
     add_child self cid
       (Project \<lparr>project_name = name, project_role = r, environment = env, source = src,
                 artifacts = arts\<rparr>)"

definition Pipeline_new ::
  "stack \<Rightarrow> construct_id \<Rightarrow> string \<Rightarrow> construct_id \<Rightarrow> construct_id \<Rightarrow> stage_props list
     \<Rightarrow> error + (construct_id \<times> stack)" where
  "Pipeline_new self cid name r b sts =
     add_child self cid
       (Pipeline \<lparr>pipeline_name = name, pipeline_role = r, artifact_bucket = b, stages = sts\<rparr>)"

section \<open>The stack of the source\<close>

text \<open>
  \<^verbatim>\<open>CdkPipelineStack.__init__\<close>, statement by statement. Its arguments are the scope, the
  construct id and the keyword arguments handed on to \<^verbatim>\<open>Stack\<close>; no value of a
  parameter is among them.
\<close>

definition CdkPipelineStack ::
  "string \<Rightarrow> string \<Rightarrow> (string \<times> string) list \<Rightarrow> error + stack" where
  "CdkPipelineStack scope construct_id kwargs =
     and_then (Stack scope construct_id kwargs) (\<lambda>self.
     and_then (CfnParameter self ''projectUrl'' ''String''
       ''My software pipeline delivery template using Cloudformation and CodeCommit'')
       (\<lambda>(project_url, self).
     and_then (CfnParameter self ''S3BucketName'' ''String''
       ''S3 bucket name for storing artifacts'')
       (\<lambda>(s3_bucket_name, self).
     and_then (CfnParameter self ''RepositoryName'' ''String''
       ''CodeCommit repository name'')
       (\<lambda>(repository_name, self).
     and_then (Bucket_new self ''ArtifactBucket''
       (value_as_string s3_bucket_name) S3_MANAGED DESTROY)
       (\<lambda>(artifact_bucket, self).
     and_then (add_to_resource_policy self artifact_bucket
       (PolicyStatement
          [''s3:PutObject'']
          [bucket_arn artifact_bucket @ [Lit ''/*'']]
          (Some [(''StringNotEquals'', [(''s3:x-amz-server-side-encryption'', ''aws:kms'')])])
          (Some DENY)
          (Some [AnyPrincipal])))
       (\<lambda>self.
     and_then (Repository_new self ''JavaProjectRepository''
       (value_as_string repository_name))
       (\<lambda>(repository, self).
     and_then (Role_new self ''AppBuildRole''
       (ServicePrincipal ''codebuild.amazonaws.com'')
       [AwsManagedPolicy ''AmazonS3ReadOnlyAccess'']
       [(''CodeBuildAccess'',
         [PolicyStatement
            [''s3:PutObject'', ''s3:GetObject'', ''s3:GetObjectVersion'',
             ''s3:GetBucketAcl'', ''s3:GetBucketLocation'']
            [[Lit ''arn:aws:s3:::''] @ value_as_string s3_bucket_name,
             [Lit ''arn:aws:s3:::''] @ value_as_string s3_bucket_name @ [Lit ''/*'']]
            None None None])])
       (\<lambda>(build_project_role, self).
     and_then (Project_new self ''AppBuildProject'' ''AppBuildProject''
       build_project_role
       \<lparr>env_build_image = STANDARD_5_0, env_compute_type = SMALL\<rparr>
       (CodeCommitSource repository)
       \<lparr>artifacts_bucket = artifact_bucket, include_build_id = False, package_zip = True,
        path = '''', artifact_identifier = ''BuildOutput'', artifacts_encryption = True\<rparr>)
       (\<lambda>(build_project, self).
     and_then (Role_new self ''CodePipelineServiceRole''
       (ServicePrincipal ''codepipeline.amazonaws.com'')
       [AwsManagedPolicy ''AmazonS3ReadOnlyAccess'']
       [(''ec2codedeploy'',
         [PolicyStatement
            [''s3:GetObject'', ''s3:GetBucketAcl'', ''s3:GetBucketLocation'']
            [bucket_arn artifact_bucket, bucket_arn artifact_bucket @ [Lit ''/*'']]
            None None None])])
       (\<lambda>(pipeline_role, self).
     and_then (Pipeline_new self ''AppPipeline'' ''AppPipeline'' pipeline_role artifact_bucket
       [\<lparr>stage_name = ''Source'',
         stage_actions =
           [CodeCommitSourceAction ''SourceAction'' repository ''master''
              (Artifact ''SourceOutput'')]\<rparr>,
        \<lparr>stage_name = ''Build'',
         stage_actions =
           [CodeBuildAction ''BuildAction'' build_project (Artifact ''SourceOutput'')
              [Artifact ''BuildOutput'']]\<rparr>])
       (\<lambda>(app_pipeline, self). Inr self)))))))))))"

section \<open>Reading the topology\<close>

definition lookup :: "stack \<Rightarrow> construct_id \<Rightarrow> construct option" where
  "lookup st cid = map_of (children st) cid"

fun is_parameter :: "construct \<Rightarrow> bool" where
  "is_parameter (Parameter p) = True"
| "is_parameter c = False"

definition parameters :: "stack \<Rightarrow> (construct_id \<times> cfn_parameter) list" where
  "parameters st = [(cid, p). (cid, Parameter p) \<leftarrow> children st]"

definition resource_entities :: "stack \<Rightarrow> (construct_id \<times> construct) list" where
  "resource_entities st = filter (\<lambda>(cid, c). \<not> is_parameter c) (children st)"

definition buckets :: "stack \<Rightarrow> (construct_id \<times> bucket) list" where
  "buckets st = [(cid, b). (cid, Bucket b) \<leftarrow> children st]"

definition repositories :: "stack \<Rightarrow> (construct_id \<times> repository) list" where
  "repositories st = [(cid, r). (cid, Repository r) \<leftarrow> children st]"

definition roles :: "stack \<Rightarrow> (construct_id \<times> role) list" where
  "roles st = [(cid, r). (cid, Role r) \<leftarrow> children st]"

definition projects :: "stack \<Rightarrow> (construct_id \<times> project) list" where
  "projects st = [(cid, p). (cid, Project p) \<leftarrow> children st]"

definition pipelines :: "stack \<Rightarrow> (construct_id \<times> pipeline) list" where
  "pipelines st = [(cid, p). (cid, Pipeline p) \<leftarrow> children st]"

text \<open>
  What a run of the constructor leaves behind: whether it raised, and the resource
  entities it created (none when it raised).
\<close>

definition construction_failed :: "error + stack \<Rightarrow> bool" where
  "construction_failed r = (case r of Inl e \<Rightarrow> True | Inr st \<Rightarrow> False)"

definition entities_created :: "error + stack \<Rightarrow> construct_id list" where
  "entities_created r = (case r of Inl e \<Rightarrow> [] | Inr st \<Rightarrow> map fst (resource_entities st))"

text \<open>
  The permission grants of a topology: the statements of every bucket's resource policy,
  and the statements of every inline policy of every role.
\<close>

definition bucket_statements :: "stack \<Rightarrow> policy_statement list" where
  "bucket_statements st = concat (map (\<lambda>(cid, b). resource_policy b) (buckets st))"

definition inline_statements :: "role \<Rightarrow> policy_statement list" where
  "inline_statements r = concat (map snd (inline_policies r))"

definition role_statements :: "stack \<Rightarrow> policy_statement list" where
  "role_statements st = concat (map (\<lambda>(cid, r). inline_statements r) (roles st))"

definition deny_statements :: "stack \<Rightarrow> policy_statement list" where
  "deny_statements st =
     filter (\<lambda>s. stmt_effect s = DENY) (bucket_statements st @ role_statements st)"

section \<open>What the tokens stand for\<close>

text \<open>
  The provisioning service replaces a token when it has the values of the parameters:
  a reference to a parameter by the value supplied for it (or the parameter's default),
  the attribute \<^verbatim>\<open>Arn\<close> of a bucket by the bucket's resource name, which for object
  storage is \<^verbatim>\<open>arn:aws:s3:::\<close> followed by the bucket's name. A token the source never
  builds has no value here.
\<close>

type_synonym parameter_values = "string \<Rightarrow> string option"

fun concat_options :: "string option list \<Rightarrow> string option" where
  "concat_options [] = Some []"
| "concat_options (None # xs) = None"
| "concat_options (Some s # xs) = map_option ((@) s) (concat_options xs)"

fun resolve_name_fragment :: "stack \<Rightarrow> parameter_values \<Rightarrow> fragment \<Rightarrow> string option" where
  "resolve_name_fragment st env (Lit s) = Some s"
| "resolve_name_fragment st env (Ref p) =
     (case lookup st p of
        Some (Parameter d) \<Rightarrow> (case env p of Some v \<Rightarrow> Some v | None \<Rightarrow> param_default d)
      | _ \<Rightarrow> None)"
| "resolve_name_fragment st env (GetAtt r a) = None"

definition resolve_name :: "stack \<Rightarrow> parameter_values \<Rightarrow> cdk_string \<Rightarrow> string option" where
  "resolve_name st env s = concat_options (map (resolve_name_fragment st env) s)"

definition s3_arn :: "string \<Rightarrow> string" where
  "s3_arn name = ''arn:aws:s3:::'' @ name"

fun resolve_fragment :: "stack \<Rightarrow> parameter_values \<Rightarrow> fragment \<Rightarrow> string option" where
  "resolve_fragment st env (GetAtt r a) =
     (case lookup st r of
        Some (Bucket b) \<Rightarrow>
          (if a = ''Arn'' then map_option s3_arn (resolve_name st env (bucket_name b)) else None)
      | _ \<Rightarrow> None)"
| "resolve_fragment st env f = resolve_name_fragment st env f"

definition resolve :: "stack \<Rightarrow> parameter_values \<Rightarrow> cdk_string \<Rightarrow> string option" where
  "resolve st env s = concat_options (map (resolve_fragment st env) s)"

text \<open>The resource name of the object stored under key \<open>k\<close> in the bucket named \<open>b\<close>.\<close>

definition object_arn :: "string \<Rightarrow> string \<Rightarrow> string" where
  "object_arn b k = s3_arn b @ ''/'' @ k"

subsection \<open>The topology with its tokens replaced\<close>

definition resolve_string :: "stack \<Rightarrow> parameter_values \<Rightarrow> cdk_string \<Rightarrow> cdk_string" where
  "resolve_string st env s = (case resolve st env s of None \<Rightarrow> s | Some v \<Rightarrow> [Lit v])"

definition resolve_statement ::
  "stack \<Rightarrow> parameter_values \<Rightarrow> policy_statement \<Rightarrow> policy_statement" where
  "resolve_statement st env s =
     s\<lparr>stmt_resources := map (resolve_string st env) (stmt_resources s)\<rparr>"

fun resolve_construct :: "stack \<Rightarrow> parameter_values \<Rightarrow> construct \<Rightarrow> construct" where
  "resolve_construct st env (Parameter p) = Parameter p"
| "resolve_construct st env (Bucket b) =
     Bucket (b\<lparr>bucket_name := resolve_string st env (bucket_name b),
               resource_policy := map (resolve_statement st env) (resource_policy b)\<rparr>)"
| "resolve_construct st env (Repository r) =
     Repository (r\<lparr>repository_name := resolve_string st env (repository_name r)\<rparr>)"
| "resolve_construct st env (Role r) =
     Role (r\<lparr>inline_policies :=
              map (\<lambda>(n, ss). (n, map (resolve_statement st env) ss)) (inline_policies r)\<rparr>)"
| "resolve_construct st env (Project p) = Project p"
| "resolve_construct st env (Pipeline p) = Pipeline p"

definition resolve_topology ::
  "stack \<Rightarrow> parameter_values \<Rightarrow> (construct_id \<times> construct) list" where
  "resolve_topology st env = map (\<lambda>(cid, c). (cid, resolve_construct st env c)) (children st)"

text \<open>
  One run from the parameters' values to the topology the provisioning service works
  from: the plan is constructed, then its tokens are replaced.
\<close>

definition provisioned_topology ::
  "string \<Rightarrow> string \<Rightarrow> (string \<times> string) list \<Rightarrow> parameter_values
     \<Rightarrow> error + (construct_id \<times> construct) list" where
  "provisioned_topology scope construct_id kwargs env =
     and_then (CdkPipelineStack scope construct_id kwargs) (\<lambda>st. Inr (resolve_topology st env))"

text \<open>The parameters a construct's strings refer to.\<close>

fun strings_of :: "construct \<Rightarrow> cdk_string list" where
  "strings_of (Parameter p) = []"
| "strings_of (Bucket b) = bucket_name b # concat (map stmt_resources (resource_policy b))"
| "strings_of (Repository r) = [repository_name r]"
| "strings_of (Role r) = concat (map stmt_resources (inline_statements r))"
| "strings_of (Project p) = []"
| "strings_of (Pipeline p) = []"

fun refs_of_fragment :: "fragment \<Rightarrow> construct_id list" where
  "refs_of_fragment (Ref p) = [p]"
| "refs_of_fragment f = []"

definition referenced_parameters :: "stack \<Rightarrow> construct_id list" where
  "referenced_parameters st =
     concat (map refs_of_fragment (concat (concat (map (\<lambda>(cid, c). strings_of c) (children st)))))"

section \<open>What a statement of a policy applies to\<close>

text \<open>
  A resource pattern of a statement is matched against the resource name of a request
  character by character; \<open>*\<close> stands for any run of characters and \<open>?\<close> for any one.
\<close>

fun glob_match :: "string \<Rightarrow> string \<Rightarrow> bool" where
  "glob_match [] s = (s = [])"
| "glob_match (p # ps) [] = (p = CHR ''*'' \<and> glob_match ps [])"
| "glob_match (p # ps) (c # cs) =
     (if p = CHR ''*'' then glob_match ps (c # cs) \<or> glob_match (p # ps) cs
      else (p = CHR ''?'' \<or> p = c) \<and> glob_match ps cs)"

record request =
  req_principal :: string
  req_action :: string
  req_resource :: string
  req_context :: "string \<Rightarrow> string option"

fun principal_matches :: "string \<Rightarrow> principal \<Rightarrow> bool" where
  "principal_matches who AnyPrincipal = True"
| "principal_matches who (ServicePrincipal s) = (who = s)"

text \<open>
  A condition compares a key of the request's context with a value. The negated
  operator also holds for a request that does not carry the key.
\<close>

fun condition_holds :: "(string \<Rightarrow> string option) \<Rightarrow> string \<Rightarrow> string \<times> string \<Rightarrow> bool" where
  "condition_holds ctx operator (k, v) =
     (if operator = ''StringEquals'' then ctx k = Some v
      else if operator = ''StringNotEquals'' then ctx k \<noteq> Some v
      else False)"

definition resource_matches ::
  "stack \<Rightarrow> parameter_values \<Rightarrow> cdk_string \<Rightarrow> string \<Rightarrow> bool" where
  "resource_matches st env pattern arn =
     (case resolve st env pattern of None \<Rightarrow> False | Some p \<Rightarrow> glob_match p arn)"

definition statement_applies ::
  "stack \<Rightarrow> parameter_values \<Rightarrow> policy_statement \<Rightarrow> request \<Rightarrow> bool" where
  "statement_applies st env s rq =
     (list_ex (principal_matches (req_principal rq)) (stmt_principals s)
      \<and> req_action rq \<in> set (stmt_actions s)
      \<and> list_ex (\<lambda>pattern. resource_matches st env pattern (req_resource rq)) (stmt_resources s)
      \<and> list_all (\<lambda>(operator, kvs). list_all (condition_holds (req_context rq) operator) kvs)
           (stmt_conditions s))"

definition denies ::
  "stack \<Rightarrow> parameter_values \<Rightarrow> policy_statement \<Rightarrow> request \<Rightarrow> bool" where
  "denies st env s rq = (stmt_effect s = DENY \<and> statement_applies st env s rq)"

section \<open>Resource names in a partition\<close>

text \<open>
  The attribute \<^verbatim>\<open>Arn\<close> of a bucket begins with the partition the plan is provisioned in:
  \<^verbatim>\<open>arn:aws:s3:::\<close> in the standard partition, \<^verbatim>\<open>arn:aws-cn:s3:::\<close> in the Chinese one. The
  definitions above read the attribute in the standard partition; the ones below take the
  partition as an argument. A literal prefix in the source stays what the source wrote.
\<close>

definition s3_arn_in :: "string \<Rightarrow> string \<Rightarrow> string" where
  "s3_arn_in part name = ''arn:'' @ part @ '':s3:::'' @ name"

fun resolve_fragment_in ::
  "string \<Rightarrow> stack \<Rightarrow> parameter_values \<Rightarrow> fragment \<Rightarrow> string option" where
  "resolve_fragment_in part st env (GetAtt r a) =
     (case lookup st r of
        Some (Bucket b) \<Rightarrow>
          (if a = ''Arn''
           then map_option (s3_arn_in part) (resolve_name st env (bucket_name b))
           else None)
      | _ \<Rightarrow> None)"
| "resolve_fragment_in part st env f = resolve_name_fragment st env f"

definition resolve_in ::
  "string \<Rightarrow> stack \<Rightarrow> parameter_values \<Rightarrow> cdk_string \<Rightarrow> string option" where
  "resolve_in part st env s = concat_options (map (resolve_fragment_in part st env) s)"



section \<open>What the SDK attaches to a role\<close>

text \<open>
  A role handed to a build project or to a pipeline gets more than the repository wrote
  into it. The constructor of the construct adds statements to a policy of its own on the
  role, the role's default policy, a third layer beside the managed and the inline
  policies. The role's record above keeps what the repository declared; the default
  policy is given here, from the constructs that run under the role.

  \<^verbatim>\<open>Bucket.grant_read_write\<close> is one ALLOW statement on the bucket and on its objects.
\<close>

definition grant_read_write :: "construct_id \<Rightarrow> policy_statement" where
  "grant_read_write b =
     PolicyStatement
       [''s3:GetObject*'', ''s3:GetBucket*'', ''s3:List*'', ''s3:DeleteObject*'',
        ''s3:PutObject'', ''s3:PutObjectLegalHold'', ''s3:PutObjectRetention'',
        ''s3:PutObjectTagging'', ''s3:PutObjectVersionTagging'', ''s3:Abort*'']
       [bucket_arn b, bucket_arn b @ [Lit ''/*'']]
       None None None"

definition log_group_arn :: "construct_id \<Rightarrow> cdk_string" where
  "log_group_arn p =
     [Lit ''arn:'', Ref ''AWS::Partition'', Lit '':logs:'', Ref ''AWS::Region'', Lit '':'',
      Ref ''AWS::AccountId'', Lit '':log-group:/aws/codebuild/'', Ref p]"

definition report_group_arn :: "construct_id \<Rightarrow> cdk_string" where
  "report_group_arn p =
     [Lit ''arn:'', Ref ''AWS::Partition'', Lit '':codebuild:'', Ref ''AWS::Region'', Lit '':'',
      Ref ''AWS::AccountId'', Lit '':report-group/'', Ref p, Lit ''-*'']"

text \<open>
  \<^verbatim>\<open>codebuild.Project\<close> lets its role pull from the source repository, read and write the
  artifact bucket, write its build log and write its test reports.
\<close>

definition project_default_policy :: "construct_id \<Rightarrow> project \<Rightarrow> policy_statement list" where
  "project_default_policy pid p =
     [PolicyStatement [''codecommit:GitPull'']
        [[GetAtt (source_repository (source p)) ''Arn'']] None None None,
      grant_read_write (artifacts_bucket (artifacts p)),
      PolicyStatement [''logs:CreateLogGroup'', ''logs:CreateLogStream'', ''logs:PutLogEvents'']
        [log_group_arn pid, log_group_arn pid @ [Lit '':*'']] None None None,
      PolicyStatement
        [''codebuild:CreateReportGroup'', ''codebuild:CreateReport'', ''codebuild:UpdateReport'',
         ''codebuild:BatchPutTestCases'', ''codebuild:BatchPutCodeCoverages'']
        [report_group_arn pid] None None None]"

text \<open>
  \<^verbatim>\<open>codepipeline.Pipeline\<close> lets its role read and write the artifact bucket and assume the
  role it creates for each action. Those action roles, and the role of the rule that
  starts the pipeline, are the pipeline's own; the repository never names them and they
  are not children of the stack here.
\<close>

definition action_role :: "construct_id \<Rightarrow> stage_props \<Rightarrow> action \<Rightarrow> construct_id" where
  "action_role pid s a =
     pid @ ''/'' @ stage_name s @ ''/'' @ action_name a @ ''/CodePipelineActionRole''"

definition pipeline_default_policy :: "construct_id \<Rightarrow> pipeline \<Rightarrow> policy_statement list" where
  "pipeline_default_policy pid pl =
     grant_read_write (artifact_bucket pl)
     # concat (map (\<lambda>s. map (\<lambda>a.
           PolicyStatement [''sts:AssumeRole''] [[GetAtt (action_role pid s a) ''Arn'']]
             None None None) (stage_actions s)) (stages pl))"

definition default_policy :: "stack \<Rightarrow> construct_id \<Rightarrow> policy_statement list" where
  "default_policy st rid =
     concat (map (\<lambda>(pid, p). if project_role p = rid then project_default_policy pid p else [])
               (projects st))
     @ concat (map (\<lambda>(pid, pl). if pipeline_role pl = rid then pipeline_default_policy pid pl else [])
               (pipelines st))"

text \<open>
  The layers a role carries after a run, and the actions its inline and default policies
  allow.
\<close>

definition layers_carried :: "error + stack \<Rightarrow> construct_id \<Rightarrow> nat" where
  "layers_carried r rid =
     (case r of
        Inl e \<Rightarrow> 0
      | Inr st \<Rightarrow>
          (case lookup st rid of
             Some (Role ro) \<Rightarrow>
               length (managed_policies ro) + length (inline_policies ro)
               + (if default_policy st rid = [] then 0 else 1)
           | _ \<Rightarrow> 0))"

definition actions_carried :: "error + stack \<Rightarrow> construct_id \<Rightarrow> string list" where
  "actions_carried r rid =
     (case r of
        Inl e \<Rightarrow> []
      | Inr st \<Rightarrow>
          (case lookup st rid of
             Some (Role ro) \<Rightarrow>
               concat (map stmt_actions
                 (filter (\<lambda>s. stmt_effect s = ALLOW)
                    (inline_statements ro @ default_policy st rid)))
           | _ \<Rightarrow> []))"

section \<open>The topology the constructor returns\<close>

lemmas constructor_defs =
  and_then_def Stack_def add_child_def CfnParameter_def value_as_string_def Bucket_new_def
  bucket_arn_def PolicyStatement_def add_to_resource_policy_def Repository_new_def
  Role_new_def Project_new_def Pipeline_new_def

lemma CdkPipelineStack_result:
  "CdkPipelineStack scope cid kw =
     Inr \<lparr>stack_scope = scope, stack_id = cid, stack_props = kw,
       children =
        [(''projectUrl'',
          Parameter \<lparr>param_type = ''String'',
            param_description =
              ''My software pipeline delivery template using Cloudformation and CodeCommit'',
            param_default = None\<rparr>),
         (''S3BucketName'',
          Parameter \<lparr>param_type = ''String'',
            param_description = ''S3 bucket name for storing artifacts'',
            param_default = None\<rparr>),
         (''RepositoryName'',
          Parameter \<lparr>param_type = ''String'',
            param_description = ''CodeCommit repository name'', param_default = None\<rparr>),
         (''ArtifactBucket'',
          Bucket \<lparr>bucket_name = [Ref ''S3BucketName''], encryption = S3_MANAGED,
            bucket_removal_policy = DESTROY,
            resource_policy =
              [\<lparr>stmt_actions = [''s3:PutObject''],
                stmt_resources = [[GetAtt ''ArtifactBucket'' ''Arn'', Lit ''/*'']],
                stmt_conditions =
                  [(''StringNotEquals'', [(''s3:x-amz-server-side-encryption'', ''aws:kms'')])],
                stmt_effect = DENY, stmt_principals = [AnyPrincipal]\<rparr>]\<rparr>),
         (''JavaProjectRepository'',
          Repository \<lparr>repository_name = [Ref ''RepositoryName'']\<rparr>),
         (''AppBuildRole'',
          Role \<lparr>assumed_by = ServicePrincipal ''codebuild.amazonaws.com'',
            managed_policies = [AwsManagedPolicy ''AmazonS3ReadOnlyAccess''],
            inline_policies =
              [(''CodeBuildAccess'',
                [\<lparr>stmt_actions =
                    [''s3:PutObject'', ''s3:GetObject'', ''s3:GetObjectVersion'',
                     ''s3:GetBucketAcl'', ''s3:GetBucketLocation''],
                  stmt_resources =
                    [[Lit ''arn:aws:s3:::'', Ref ''S3BucketName''],
                     [Lit ''arn:aws:s3:::'', Ref ''S3BucketName'', Lit ''/*'']],
                  stmt_conditions = [], stmt_effect = ALLOW, stmt_principals = []\<rparr>])]\<rparr>),
         (''AppBuildProject'',
          Project \<lparr>project_name = ''AppBuildProject'', project_role = ''AppBuildRole'',
            environment = \<lparr>env_build_image = STANDARD_5_0, env_compute_type = SMALL\<rparr>,
            source = CodeCommitSource ''JavaProjectRepository'',
            artifacts =
              \<lparr>artifacts_bucket = ''ArtifactBucket'', include_build_id = False,
               package_zip = True, path = [], artifact_identifier = ''BuildOutput'',
               artifacts_encryption = True\<rparr>\<rparr>),
         (''CodePipelineServiceRole'',
          Role \<lparr>assumed_by = ServicePrincipal ''codepipeline.amazonaws.com'',
            managed_policies = [AwsManagedPolicy ''AmazonS3ReadOnlyAccess''],
            inline_policies =
              [(''ec2codedeploy'',
                [\<lparr>stmt_actions = [''s3:GetObject'', ''s3:GetBucketAcl'', ''s3:GetBucketLocation''],
                  stmt_resources =
                    [[GetAtt ''ArtifactBucket'' ''Arn''],
                     [GetAtt ''ArtifactBucket'' ''Arn'', Lit ''/*'']],
                  stmt_conditions = [], stmt_effect = ALLOW, stmt_principals = []\<rparr>])]\<rparr>),
         (''AppPipeline'',
          Pipeline \<lparr>pipeline_name = ''AppPipeline'', pipeline_role = ''CodePipelineServiceRole'',
            artifact_bucket = ''ArtifactBucket'',
            stages =
              [\<lparr>stage_name = ''Source'',
                stage_actions =
                  [CodeCommitSourceAction ''SourceAction'' ''JavaProjectRepository'' ''master''
                     (Artifact ''SourceOutput'')]\<rparr>,
               \<lparr>stage_name = ''Build'',
                stage_actions =
                  [CodeBuildAction ''BuildAction'' ''AppBuildProject''
                     (Artifact ''SourceOutput'') [Artifact ''BuildOutput'']]\<rparr>]\<rparr>)]\<rparr>"
  by (simp add: CdkPipelineStack_def constructor_defs)

lemmas reading_defs =
  lookup_def parameters_def resource_entities_def buckets_def repositories_def roles_def
  projects_def pipelines_def bucket_statements_def inline_statements_def role_statements_def
  deny_statements_def

lemmas resolve_defs = resolve_def resolve_name_def

section \<open>Facts about matching\<close>

lemma glob_match_star: "glob_match ''*'' s"
  by (induction s) simp_all

lemma glob_match_same_prefix: "glob_match p s \<Longrightarrow> glob_match (a @ p) (a @ s)"
proof (induction a)
  case Nil
  then show ?case by simp
next
  case (Cons c a)
  then have "glob_match (a @ p) (a @ s)" by simp
  moreover have "glob_match (CHR ''*'' # q) t" if "glob_match q t" for q t
    using that by (cases t) simp_all
  ultimately show ?case by simp
qed

lemma glob_match_objects: "glob_match (s3_arn b @ ''/*'') (object_arn b k)"
proof -
  have "glob_match ''/*'' (''/'' @ k)"
    using glob_match_star [of k] by simp
  then show ?thesis
    unfolding object_arn_def by (rule glob_match_same_prefix)
qed

section \<open>The claims\<close>

subsection \<open>The DENY statement of the bucket's policy\<close>

text \<open>
  Claim C1. The resource policy of the storage location holds exactly one statement, it
  is the only DENY statement of the topology, and it names the action
  \<^verbatim>\<open>s3:PutObject\<close>, any principal and the condition that the server-side-encryption
  header differs from \<^verbatim>\<open>aws:kms\<close>. Once the bucket's name \<open>b\<close> is known, its one resource
  pattern is the bucket's resource name followed by \<^verbatim>\<open>/*\<close>; the pattern matches the
  resource name of every object key \<open>k\<close> of the bucket, and the statement denies a
  request to put an object under any key, by any principal, exactly when the request's
  header is not \<^verbatim>\<open>aws:kms\<close> (a request without the header included).
\<close>

theorem deny_statement_unencrypted_put:
  assumes "env ''S3BucketName'' = Some b"
  shows "\<exists>st bk d pattern.
     CdkPipelineStack scope cid kw = Inr st
     \<and> buckets st = [(''ArtifactBucket'', bk)]
     \<and> resolve_name st env (bucket_name bk) = Some b
     \<and> resource_policy bk = [d]
     \<and> deny_statements st = [d]
     \<and> stmt_effect d = DENY
     \<and> stmt_actions d = [''s3:PutObject'']
     \<and> stmt_principals d = [AnyPrincipal]
     \<and> stmt_conditions d =
         [(''StringNotEquals'', [(''s3:x-amz-server-side-encryption'', ''aws:kms'')])]
     \<and> stmt_resources d = [pattern]
     \<and> resolve st env pattern = Some (s3_arn b @ ''/*'')
     \<and> (\<forall>k. resource_matches st env pattern (object_arn b k))
     \<and> (\<forall>who k ctx.
           denies st env d
             \<lparr>req_principal = who, req_action = ''s3:PutObject'',
              req_resource = object_arn b k, req_context = ctx\<rparr>
           = (ctx ''s3:x-amz-server-side-encryption'' \<noteq> Some ''aws:kms''))"
  using assms
  by (simp add: CdkPipelineStack_result reading_defs resolve_defs resource_matches_def
      denies_def statement_applies_def glob_match_objects)

text \<open>
  For the bucket name \<^verbatim>\<open>my-bucket\<close>: a put of \<^verbatim>\<open>app.zip\<close> without the header is denied,
  the same put with the header set to \<^verbatim>\<open>aws:kms\<close> is not.
\<close>

theorem deny_statement_unencrypted_put_witness:
  "\<exists>st d.
     CdkPipelineStack ''App'' ''CdkPipelineStack'' [] = Inr st
     \<and> deny_statements st = [d]
     \<and> denies st [''S3BucketName'' \<mapsto> ''my-bucket''] d
          \<lparr>req_principal = ''codebuild.amazonaws.com'', req_action = ''s3:PutObject'',
           req_resource = object_arn ''my-bucket'' ''app.zip'', req_context = Map.empty\<rparr>
     \<and> \<not> denies st [''S3BucketName'' \<mapsto> ''my-bucket''] d
          \<lparr>req_principal = ''codebuild.amazonaws.com'', req_action = ''s3:PutObject'',
           req_resource = object_arn ''my-bucket'' ''app.zip'',
           req_context = [''s3:x-amz-server-side-encryption'' \<mapsto> ''aws:kms'']\<rparr>"
proof -
  have h: "[''S3BucketName'' \<mapsto> ''my-bucket''] ''S3BucketName'' = Some ''my-bucket''"
    by simp
  from deny_statement_unencrypted_put
    [where env = "[''S3BucketName'' \<mapsto> ''my-bucket'']" and b = "''my-bucket''"
       and scope = "''App''" and cid = "''CdkPipelineStack''" and kw = "[]", OF h]
  show ?thesis
    by (elim exE conjE) simp
qed

subsection \<open>The inline grants and the one storage location\<close>




subsection \<open>Parameters without values\<close>

text \<open>
  Claim C3, as the spec states it, fails. The constructor is handed a scope, a construct
  id and the stack's keyword arguments; the value of a parameter is not among its
  inputs, so every run is a run with the three values left out. The run below is given
  nothing but the two names, it does not fail, and it creates all six resource entities.
\<close>

theorem construction_without_values_counterexample:
  "\<not> construction_failed (CdkPipelineStack ''App'' ''CdkPipelineStack'' [])
   \<and> entities_created (CdkPipelineStack ''App'' ''CdkPipelineStack'' []) =
       [''ArtifactBucket'', ''JavaProjectRepository'', ''AppBuildRole'', ''AppBuildProject'',
        ''CodePipelineServiceRole'', ''AppPipeline'']"
  by (simp add: CdkPipelineStack_result construction_failed_def entities_created_def
      resource_entities_def)

text \<open>
  Claim C3, amended. Plan construction is not given the parameters' values and makes no
  check on them, so a value left out is not what makes a run fail. Whenever the
  constructor returns, the plan is whole: \<^verbatim>\<open>projectUrl\<close>, \<^verbatim>\<open>S3BucketName\<close> and
  \<^verbatim>\<open>RepositoryName\<close> are declared with type \<^verbatim>\<open>String\<close> and no default, and all six
  resource entities are there. Whether the base constructor accepts the scope, the id
  and the keyword arguments is left open.
\<close>

theorem returned_plan_declares_parameters:
  assumes "CdkPipelineStack scope cid kw = Inr st"
  shows "map fst (parameters st) = [''projectUrl'', ''S3BucketName'', ''RepositoryName'']
     \<and> map (param_type \<circ> snd) (parameters st) = [''String'', ''String'', ''String'']
     \<and> map (param_default \<circ> snd) (parameters st) = [None, None, None]
     \<and> map fst (resource_entities st) =
         [''ArtifactBucket'', ''JavaProjectRepository'', ''AppBuildRole'', ''AppBuildProject'',
          ''CodePipelineServiceRole'', ''AppPipeline'']"
  using assms
  by (auto simp: CdkPipelineStack_result reading_defs)

text \<open>The constructor does return for the scope \<^verbatim>\<open>App\<close> and the id \<^verbatim>\<open>CdkPipelineStack\<close>.\<close>

theorem returned_plan_declares_parameters_witness:
  "\<exists>st.
     CdkPipelineStack ''App'' ''CdkPipelineStack'' [] = Inr st
     \<and> map fst (parameters st) = [''projectUrl'', ''S3BucketName'', ''RepositoryName'']
     \<and> map (param_default \<circ> snd) (parameters st) = [None, None, None]"
proof -
  obtain st where st: "CdkPipelineStack ''App'' ''CdkPipelineStack'' [] = Inr st"
    by (simp add: CdkPipelineStack_result)
  from returned_plan_declares_parameters [OF st] st
  show ?thesis
    by simp
qed

subsection \<open>The two phases of the pipeline\<close>

text \<open>
  Claim C4. The pipeline has exactly two stages, \<^verbatim>\<open>Source\<close> and then \<^verbatim>\<open>Build\<close>, with one
  action each; the artifact the source action puts out and the artifact the build action
  takes in have the same name, \<^verbatim>\<open>SourceOutput\<close>.
\<close>

theorem pipeline_two_phases:
  "\<exists>st pl s1 s2 a1 a2.
     CdkPipelineStack scope cid kw = Inr st
     \<and> pipelines st = [(''AppPipeline'', pl)]
     \<and> stages pl = [s1, s2]
     \<and> stage_name s1 = ''Source'' \<and> stage_actions s1 = [a1]
     \<and> stage_name s2 = ''Build'' \<and> stage_actions s2 = [a2]
     \<and> a1 = CodeCommitSourceAction ''SourceAction'' ''JavaProjectRepository'' ''master''
              (Artifact ''SourceOutput'')
     \<and> a2 = CodeBuildAction ''BuildAction'' ''AppBuildProject'' (Artifact ''SourceOutput'')
              [Artifact ''BuildOutput'']
     \<and> artifact_name (action_output a1) = ''SourceOutput''
     \<and> artifact_name (action_input a2) = artifact_name (action_output a1)"
  by (simp add: CdkPipelineStack_result reading_defs)

theorem pipeline_two_phases_witness:
  "\<exists>st pl.
     CdkPipelineStack ''App'' ''CdkPipelineStack'' [] = Inr st
     \<and> pipelines st = [(''AppPipeline'', pl)]
     \<and> map stage_name (stages pl) = [''Source'', ''Build'']"
  using pipeline_two_phases [of "''App''" "''CdkPipelineStack''" "[]"]
  by (elim exE conjE) simp

subsection \<open>The two execution principals\<close>

text \<open>
  Claim C5, as the spec states it, fails. The role is declared with two layers, and the
  build project that runs under it attaches a third, the role's default policy. After
  the run below the role \<^verbatim>\<open>AppBuildRole\<close> carries three layers, and what it is allowed
  reaches past the five actions and past the bucket: it may pull from the repository and
  delete objects.
\<close>

theorem build_role_default_policy_counterexample:
  "layers_carried (CdkPipelineStack ''App'' ''CdkPipelineStack'' []) ''AppBuildRole'' = 3
   \<and> ''codecommit:GitPull''
       \<in> set (actions_carried (CdkPipelineStack ''App'' ''CdkPipelineStack'' []) ''AppBuildRole'')
   \<and> ''s3:DeleteObject*''
       \<in> set (actions_carried (CdkPipelineStack ''App'' ''CdkPipelineStack'' []) ''AppBuildRole'')"
  by (simp add: CdkPipelineStack_result layers_carried_def actions_carried_def lookup_def
      default_policy_def projects_def pipelines_def project_default_policy_def
      pipeline_default_policy_def grant_read_write_def PolicyStatement_def
      inline_statements_def)

text \<open>
  Claim C5, amended. In every plan the constructor returns, the role the build project
  runs under is assumed by the build service and is declared with two layers of its own:
  the one managed policy \<^verbatim>\<open>AmazonS3ReadOnlyAccess\<close>, and one inline policy of one ALLOW
  statement. That statement's actions are exactly put object, get object, get object
  version, get bucket ACL and get bucket location, and its resources are
  \<^verbatim>\<open>arn:aws:s3:::\<close> followed by the value \<open>b\<close> of \<^verbatim>\<open>S3BucketName\<close>, the name of the one
  bucket, and the same followed by \<^verbatim>\<open>/*\<close>. What is attached to the role beside these two
  layers is outside this statement.
\<close>

theorem build_role_declared_layers:
  assumes "CdkPipelineStack scope cid kw = Inr st"
    and "env ''S3BucketName'' = Some b"
  shows "\<exists>pj r bk g.
     projects st = [(''AppBuildProject'', pj)]
     \<and> lookup st (project_role pj) = Some (Role r)
     \<and> assumed_by r = ServicePrincipal ''codebuild.amazonaws.com''
     \<and> managed_policies r = [AwsManagedPolicy ''AmazonS3ReadOnlyAccess'']
     \<and> inline_policies r = [(''CodeBuildAccess'', [g])]
     \<and> stmt_effect g = ALLOW
     \<and> distinct (stmt_actions g)
     \<and> set (stmt_actions g) =
         {''s3:PutObject'', ''s3:GetObject'', ''s3:GetObjectVersion'', ''s3:GetBucketAcl'',
          ''s3:GetBucketLocation''}
     \<and> buckets st = [(''ArtifactBucket'', bk)]
     \<and> resolve_name st env (bucket_name bk) = Some b
     \<and> (\<forall>part.
           map (resolve_in part st env) (stmt_resources g)
           = [Some (''arn:aws:s3:::'' @ b), Some (''arn:aws:s3:::'' @ b @ ''/*'')])"
  using assms
  by (auto simp: CdkPipelineStack_result reading_defs resolve_in_def resolve_name_def)

theorem build_role_declared_layers_witness:
  "\<exists>st pj r g.
     CdkPipelineStack ''App'' ''CdkPipelineStack'' [] = Inr st
     \<and> projects st = [(''AppBuildProject'', pj)]
     \<and> lookup st (project_role pj) = Some (Role r)
     \<and> managed_policies r = [AwsManagedPolicy ''AmazonS3ReadOnlyAccess'']
     \<and> inline_policies r = [(''CodeBuildAccess'', [g])]
     \<and> map (resolve_in ''aws'' st [''S3BucketName'' \<mapsto> ''my-bucket'']) (stmt_resources g)
         = [Some ''arn:aws:s3:::my-bucket'', Some ''arn:aws:s3:::my-bucket/*'']"
proof -
  obtain st where st: "CdkPipelineStack ''App'' ''CdkPipelineStack'' [] = Inr st"
    by (simp add: CdkPipelineStack_result)
  have h: "[''S3BucketName'' \<mapsto> ''my-bucket''] ''S3BucketName'' = Some ''my-bucket''"
    by simp
  from build_role_declared_layers
    [where env = "[''S3BucketName'' \<mapsto> ''my-bucket'']" and b = "''my-bucket''", OF st h] st
  show ?thesis
    by (elim exE conjE) simp
qed

text \<open>
  Claim C6, as the spec states it, fails. The role is declared with two layers, neither
  of which allows a write, and the pipeline that runs under it attaches a third, the
  role's default policy, which lets it read and write the artifact bucket. After the run
  below the role \<^verbatim>\<open>CodePipelineServiceRole\<close> carries three layers and is allowed to put
  and to delete objects.
\<close>

theorem pipeline_role_default_policy_counterexample:
  "layers_carried (CdkPipelineStack ''App'' ''CdkPipelineStack'' []) ''CodePipelineServiceRole'' = 3
   \<and> ''s3:PutObject''
       \<in> set (actions_carried (CdkPipelineStack ''App'' ''CdkPipelineStack'' [])
                ''CodePipelineServiceRole'')
   \<and> ''s3:DeleteObject*''
       \<in> set (actions_carried (CdkPipelineStack ''App'' ''CdkPipelineStack'' [])
                ''CodePipelineServiceRole'')"
  by (simp add: CdkPipelineStack_result layers_carried_def actions_carried_def lookup_def
      default_policy_def projects_def pipelines_def project_default_policy_def
      pipeline_default_policy_def grant_read_write_def PolicyStatement_def
      inline_statements_def)

text \<open>
  Claim C6, amended. In every plan the constructor returns, the role the pipeline runs
  under is assumed by the pipeline service and is declared with two layers of its own:
  the one managed policy \<^verbatim>\<open>AmazonS3ReadOnlyAccess\<close>, and one inline policy of one ALLOW
  statement. That statement's actions are exactly get object, get bucket ACL and get
  bucket location, none of them a write, and its resources are the attribute \<^verbatim>\<open>Arn\<close> of
  the one bucket and the same followed by \<^verbatim>\<open>/*\<close>, which resolve to that bucket's
  identifier in every partition. What is attached to the role beside these two layers is
  outside this statement.
\<close>

theorem pipeline_role_declared_layers:
  assumes "CdkPipelineStack scope cid kw = Inr st"
    and "env ''S3BucketName'' = Some b"
  shows "\<exists>pl r bk g.
     pipelines st = [(''AppPipeline'', pl)]
     \<and> lookup st (pipeline_role pl) = Some (Role r)
     \<and> assumed_by r = ServicePrincipal ''codepipeline.amazonaws.com''
     \<and> managed_policies r = [AwsManagedPolicy ''AmazonS3ReadOnlyAccess'']
     \<and> inline_policies r = [(''ec2codedeploy'', [g])]
     \<and> stmt_effect g = ALLOW
     \<and> distinct (stmt_actions g)
     \<and> set (stmt_actions g) = {''s3:GetObject'', ''s3:GetBucketAcl'', ''s3:GetBucketLocation''}
     \<and> ''s3:PutObject'' \<notin> set (stmt_actions g)
     \<and> buckets st = [(artifact_bucket pl, bk)]
     \<and> resolve_name st env (bucket_name bk) = Some b
     \<and> stmt_resources g =
         [bucket_arn (artifact_bucket pl), bucket_arn (artifact_bucket pl) @ [Lit ''/*'']]
     \<and> (\<forall>part.
           map (resolve_in part st env) (stmt_resources g)
           = [Some (s3_arn_in part b), Some (s3_arn_in part b @ ''/*'')])"
  using assms
  by (auto simp: CdkPipelineStack_result reading_defs resolve_in_def resolve_name_def
      bucket_arn_def s3_arn_in_def)

theorem pipeline_role_declared_layers_witness:
  "\<exists>st pl r g.
     CdkPipelineStack ''App'' ''CdkPipelineStack'' [] = Inr st
     \<and> pipelines st = [(''AppPipeline'', pl)]
     \<and> lookup st (pipeline_role pl) = Some (Role r)
     \<and> managed_policies r = [AwsManagedPolicy ''AmazonS3ReadOnlyAccess'']
     \<and> inline_policies r = [(''ec2codedeploy'', [g])]
     \<and> map (resolve_in ''aws'' st [''S3BucketName'' \<mapsto> ''my-bucket'']) (stmt_resources g)
         = [Some ''arn:aws:s3:::my-bucket'', Some ''arn:aws:s3:::my-bucket/*'']"
proof -
  obtain st where st: "CdkPipelineStack ''App'' ''CdkPipelineStack'' [] = Inr st"
    by (simp add: CdkPipelineStack_result)
  have h: "[''S3BucketName'' \<mapsto> ''my-bucket''] ''S3BucketName'' = Some ''my-bucket''"
    by simp
  from pipeline_role_declared_layers
    [where env = "[''S3BucketName'' \<mapsto> ''my-bucket'']" and b = "''my-bucket''", OF st h] st
  show ?thesis
    by (elim exE conjE) (simp add: s3_arn_in_def)
qed

subsection \<open>The build project's input and output\<close>

text \<open>
  Claim C7. The topology has one build project. Its source is the one repository of the
  topology, named by the parameter \<^verbatim>\<open>RepositoryName\<close>; its artifacts go to the one bucket
  of the topology, named by the parameter \<^verbatim>\<open>S3BucketName\<close>, packaged as a zip, without
  the build id in the object key, under the empty path, and encrypted.
\<close>

theorem build_project_binding:
  "\<exists>st pj rp bk.
     CdkPipelineStack scope cid kw = Inr st
     \<and> projects st = [(''AppBuildProject'', pj)]
     \<and> repositories st = [(source_repository (source pj), rp)]
     \<and> repository_name rp = value_as_string ''RepositoryName''
     \<and> buckets st = [(artifacts_bucket (artifacts pj), bk)]
     \<and> bucket_name bk = value_as_string ''S3BucketName''
     \<and> package_zip (artifacts pj)
     \<and> \<not> include_build_id (artifacts pj)
     \<and> path (artifacts pj) = ''''
     \<and> artifacts_encryption (artifacts pj)"
  by (simp add: CdkPipelineStack_result reading_defs value_as_string_def)

theorem build_project_binding_witness:
  "\<exists>st pj.
     CdkPipelineStack ''App'' ''CdkPipelineStack'' [] = Inr st
     \<and> projects st = [(''AppBuildProject'', pj)]
     \<and> package_zip (artifacts pj)
     \<and> length (path (artifacts pj)) = 0"
  using build_project_binding [of "''App''" "''CdkPipelineStack''" "[]"]
  by (elim exE conjE) simp

subsection \<open>The project URL\<close>

text \<open>
  Claim C9. No string of any construct refers to the parameter \<^verbatim>\<open>projectUrl\<close>, and two
  runs that differ only in the value given for it end with the same topology. (The
  declaration of a parameter holds no value, so here it is the same in both runs too.)
\<close>

theorem project_url_not_used:
  "\<exists>st t.
     CdkPipelineStack scope cid kw = Inr st
     \<and> ''projectUrl'' \<notin> set (referenced_parameters st)
     \<and> provisioned_topology scope cid kw env = Inr t
     \<and> provisioned_topology scope cid kw (env(''projectUrl'' := u)) = Inr t"
proof -
  obtain st where st: "CdkPipelineStack scope cid kw = Inr st"
    and refs: "referenced_parameters st =
      [''S3BucketName'', ''RepositoryName'', ''S3BucketName'', ''S3BucketName'']"
    by (simp add: CdkPipelineStack_result referenced_parameters_def inline_statements_def)
  have "''projectUrl'' \<notin> set (referenced_parameters st)"
    by (simp add: refs)
  moreover have "provisioned_topology scope cid kw (env(''projectUrl'' := u))
      = provisioned_topology scope cid kw env"
    by (simp add: provisioned_topology_def and_then_def CdkPipelineStack_result
        resolve_topology_def resolve_string_def resolve_statement_def resolve_defs lookup_def)
  moreover have "\<exists>t. provisioned_topology scope cid kw env = Inr t"
    by (simp add: provisioned_topology_def and_then_def CdkPipelineStack_result)
  ultimately show ?thesis
    using st by auto
qed

theorem project_url_not_used_witness:
  "\<exists>t. provisioned_topology ''App'' ''CdkPipelineStack'' []
          [''S3BucketName'' \<mapsto> ''my-bucket'', ''RepositoryName'' \<mapsto> ''my-repo'',
           ''projectUrl'' \<mapsto> ''https://example.org/one''] = Inr t
     \<and> provisioned_topology ''App'' ''CdkPipelineStack'' []
          [''S3BucketName'' \<mapsto> ''my-bucket'', ''RepositoryName'' \<mapsto> ''my-repo'',
           ''projectUrl'' \<mapsto> ''https://example.org/two''] = Inr t"
  using project_url_not_used
    [of "''App''" "''CdkPipelineStack''" "[]"
      "[''S3BucketName'' \<mapsto> ''my-bucket'', ''RepositoryName'' \<mapsto> ''my-repo'',
        ''projectUrl'' \<mapsto> ''https://example.org/one'']"
      "Some ''https://example.org/two''"]
  by (elim exE conjE) simp

subsection \<open>One bucket for the pipeline, the build and the DENY\<close>

text \<open>
  Claim C10. The pipeline's artifact store and the build project's artifact output are
  the same construct, the one bucket of the topology; the DENY statement is the policy of
  that bucket and its resource pattern is built from that bucket's attribute. The build
  project's artifact identifier, \<^verbatim>\<open>BuildOutput\<close>, is the name of the one artifact the
  pipeline's build action puts out.
\<close>

theorem shared_artifact_bucket:
  "\<exists>st pl pj bk d a1 a2.
     CdkPipelineStack scope cid kw = Inr st
     \<and> pipelines st = [(''AppPipeline'', pl)]
     \<and> projects st = [(''AppBuildProject'', pj)]
     \<and> artifact_bucket pl = artifacts_bucket (artifacts pj)
     \<and> buckets st = [(artifact_bucket pl, bk)]
     \<and> deny_statements st = [d]
     \<and> resource_policy bk = [d]
     \<and> stmt_resources d = [bucket_arn (artifact_bucket pl) @ [Lit ''/*'']]
     \<and> map stage_actions (stages pl) = [[a1], [a2]]
     \<and> a2 = CodeBuildAction ''BuildAction'' ''AppBuildProject'' (Artifact ''SourceOutput'')
              [Artifact ''BuildOutput'']
     \<and> artifact_identifier (artifacts pj) = ''BuildOutput''
     \<and> map artifact_name (action_outputs a2) = [artifact_identifier (artifacts pj)]"
  by (simp add: CdkPipelineStack_result reading_defs bucket_arn_def)

theorem shared_artifact_bucket_witness:
  "\<exists>st pl pj bk.
     CdkPipelineStack ''App'' ''CdkPipelineStack'' [] = Inr st
     \<and> pipelines st = [(''AppPipeline'', pl)]
     \<and> projects st = [(''AppBuildProject'', pj)]
     \<and> buckets st = [(artifact_bucket pl, bk)]
     \<and> buckets st = [(artifacts_bucket (artifacts pj), bk)]"
  using shared_artifact_bucket [of "''App''" "''CdkPipelineStack''" "[]"]
  by (elim exE conjE) simp

end
